theory Spec2Isabelle
  imports Complex_Main "HOL-Library.AList" "HOL-Library.Sublist"
begin

section \<open>Python values used by the selector\<close>

subsection \<open>Floats\<close>

text \<open>
  A Python \<open>float\<close> is a finite number, one of the two infinities, or not-a-number.
  Finite values are carried as exact reals: rounding to binary64 and overflow of a finite
  operation are not part of this development. The special values follow IEEE 754:
  an undefined operation yields \<open>NaN\<close>, and every comparison with \<open>NaN\<close> is false.
\<close>

datatype pyfloat = Fin real | PInf | NInf | NaN

fun fsign :: "pyfloat \<Rightarrow> real" where
  "fsign (Fin a) = sgn a"
| "fsign PInf = 1"
| "fsign NInf = - 1"
| "fsign NaN = 0"

definition inf_of_sign :: "real \<Rightarrow> pyfloat" where
  "inf_of_sign s = (if 0 < s then PInf else if s < 0 then NInf else NaN)"

text \<open>\<open>x * y\<close> on floats.\<close>

fun fmul :: "pyfloat \<Rightarrow> pyfloat \<Rightarrow> pyfloat" where
  "fmul NaN y = NaN"
| "fmul x NaN = NaN"
| "fmul (Fin a) (Fin b) = Fin (a * b)"
| "fmul x y = inf_of_sign (fsign x * fsign y)"

text \<open>\<open>x + y\<close> on floats.\<close>

fun fadd :: "pyfloat \<Rightarrow> pyfloat \<Rightarrow> pyfloat" where
  "fadd NaN y = NaN"
| "fadd x NaN = NaN"
| "fadd (Fin a) (Fin b) = Fin (a + b)"
| "fadd PInf NInf = NaN"
| "fadd NInf PInf = NaN"
| "fadd PInf y = PInf"
| "fadd NInf y = NInf"
| "fadd (Fin a) y = y"

text \<open>\<open>x >= y\<close> on floats.\<close>

fun fge :: "pyfloat \<Rightarrow> pyfloat \<Rightarrow> bool" where
  "fge NaN y = False"
| "fge x NaN = False"
| "fge (Fin a) (Fin b) = (b \<le> a)"
| "fge PInf y = True"
| "fge x NInf = True"
| "fge x y = False"


text \<open>\<open>x / 100.0\<close>: the only division of the program, by a non-zero constant.\<close>

fun fdiv100 :: "pyfloat \<Rightarrow> pyfloat" where
  "fdiv100 (Fin a) = Fin (a / 100)"
| "fdiv100 x = x"

subsection \<open>Characters and strings\<close>

text \<open>
  A Python \<open>str\<close> is modelled as a \<open>string\<close> whose characters are the code points
  U+0000 to U+00FF; \<open>CHR 0xDF\<close> is the sharp s and \<open>CHR 0xF6\<close> the o with diaeresis.
\<close>

definition eszett :: char where
  "eszett = CHR 0xDF"

definition o_umlaut :: char where
  "o_umlaut = CHR 0xF6"

section \<open>The data model\<close>

text \<open>The dataclass \<open>EntryRow\<close>.\<close>

record EntryRow =
  label :: string
  innen :: pyfloat
  cetta_max :: pyfloat
  cetta_pro_meter :: pyfloat

text \<open>
  The dictionary returned by \<open>select_best\<close>, with its four keys
  \<open>status\<close>, \<open>row\<close>, \<open>required_cetta\<close> and \<open>message\<close>.
\<close>

record selection =
  status :: string
  row :: "EntryRow option"
  required_cetta :: pyfloat
  message :: string

section \<open>The selection engine\<close>

text \<open>The tolerance \<open>1e-12\<close> of the coverage test.\<close>

definition tolerance :: pyfloat where
  "tolerance = Fin (1 / 10 ^ 12)"

text \<open>
  The scan of \<open>select_best\<close>: the \<open>for\<close> loop that leaves at the first row whose
  \<open>cetta_max + 1e-12 >= length_m * cetta_pro_meter\<close> with \<open>chosen\<close> and
  \<open>chosen_required\<close> set, and ends with \<open>chosen = None\<close> otherwise.
\<close>

fun scan_rows :: "EntryRow list \<Rightarrow> pyfloat \<Rightarrow> (EntryRow \<times> pyfloat) option" where
  "scan_rows [] length_m = None"
| "scan_rows (r # rs) length_m =
     (let req = fmul length_m (cetta_pro_meter r)
      in if fge (fadd (cetta_max r) tolerance) req then Some (r, req)
         else scan_rows rs length_m)"

definition msg_no_rows :: string where
  "msg_no_rows = ''Keine Datenzeilen vorhanden.''"

definition msg_none :: string where
  "msg_none = ''Bei kleinster m'' @ [o_umlaut] @ ''glicher Au'' @ [eszett]
     @ ''en: keiner (kein Eintrag deckt den Bedarf)''"

definition select_best :: "EntryRow list \<Rightarrow> pyfloat \<Rightarrow> selection" where
  "select_best rows length_m =
     (case rows of
        [] \<Rightarrow> \<lparr>status = ''none'', row = None, required_cetta = Fin 0, message = msg_no_rows\<rparr>
      | smallest # _ \<Rightarrow>
          (case scan_rows rows length_m of
             Some (chosen, chosen_required) \<Rightarrow>
               \<lparr>status = ''ok'', row = Some chosen, required_cetta = chosen_required,
                message = ''OK''\<rparr>
           | None \<Rightarrow>
               \<lparr>status = ''none'', row = Some smallest,
                required_cetta = fmul length_m (cetta_pro_meter smallest),
                message = msg_none\<rparr>))"

subsection \<open>Reading the result as the three variants\<close>

text \<open>
  The three result variants \<open>Fit\<close>, \<open>NoFit\<close> and \<open>Empty\<close>, and the reading of a
  result dictionary as one of them: status \<open>ok\<close> with a row is \<open>Fit\<close>, status
  \<open>none\<close> with a row is \<open>NoFit\<close>, status \<open>none\<close> without a row is \<open>Empty\<close>.
  Any other dictionary is none of the three.
\<close>

datatype SelectionResult = Fit EntryRow pyfloat | NoFit EntryRow pyfloat | Empty

definition as_variant :: "selection \<Rightarrow> SelectionResult option" where
  "as_variant res =
     (if status res = ''ok'' then
        (case row res of Some r \<Rightarrow> Some (Fit r (required_cetta res)) | None \<Rightarrow> None)
      else if status res = ''none'' then
        (case row res of Some r \<Rightarrow> Some (NoFit r (required_cetta res)) | None \<Rightarrow> Some Empty)
      else None)"

text \<open>
  A record satisfies its own requirement at a length when its maximum capacity plus the
  tolerance is at least the length times its own rate.
\<close>

definition satisfies :: "pyfloat \<Rightarrow> EntryRow \<Rightarrow> bool" where
  "satisfies length_m r =
     fge (fadd (cetta_max r) tolerance) (fmul length_m (cetta_pro_meter r))"

text \<open>The two-record example catalog.\<close>

definition example_catalog :: "EntryRow list" where
  "example_catalog =
     [\<lparr>label = ''10x1'', innen = Fin 8, cetta_max = Fin 1, cetta_pro_meter = Fin (1 / 2)\<rparr>,
      \<lparr>label = ''22x1'', innen = Fin 20, cetta_max = Fin 3, cetta_pro_meter = Fin 1\<rparr>]"

section \<open>Python string operations\<close>

text \<open>
  \<open>str.isspace\<close> on the code points below U+0100, which is also the set that
  \<open>str.strip()\<close> removes.
\<close>

definition is_space :: "char \<Rightarrow> bool" where
  "is_space c = (c \<in> set [CHR 0x09, CHR 0x0A, CHR 0x0B, CHR 0x0C, CHR 0x0D, CHR 0x1C,
     CHR 0x1D, CHR 0x1E, CHR 0x1F, CHR '' '', CHR 0x85, CHR 0xA0])"

text \<open>The ASCII white space that \<open>float()\<close> strips once its argument is ASCII.\<close>

definition is_ascii_space :: "char \<Rightarrow> bool" where
  "is_ascii_space c = (c \<in> set [CHR 0x09, CHR 0x0A, CHR 0x0B, CHR 0x0C, CHR 0x0D, CHR '' ''])"

definition strip_with :: "(char \<Rightarrow> bool) \<Rightarrow> string \<Rightarrow> string" where
  "strip_with ws s = rev (dropWhile ws (rev (dropWhile ws s)))"

text \<open>\<open>s.strip()\<close>.\<close>

definition py_strip :: "string \<Rightarrow> string" where
  "py_strip s = strip_with is_space s"

text \<open>
  \<open>s.lower()\<close>: the letters A to Z and the capital letters U+00C0 to U+00DE (without
  the multiplication sign U+00D7) move up by 32; every other code point below U+0100,
  the sharp s among them, stays.
\<close>

definition upper_letters :: string where
  "upper_letters = ''ABCDEFGHIJKLMNOPQRSTUVWXYZ'' @
     [CHR 0xC0, CHR 0xC1, CHR 0xC2, CHR 0xC3, CHR 0xC4, CHR 0xC5, CHR 0xC6, CHR 0xC7,
      CHR 0xC8, CHR 0xC9, CHR 0xCA, CHR 0xCB, CHR 0xCC, CHR 0xCD, CHR 0xCE, CHR 0xCF,
      CHR 0xD0, CHR 0xD1, CHR 0xD2, CHR 0xD3, CHR 0xD4, CHR 0xD5, CHR 0xD6,
      CHR 0xD8, CHR 0xD9, CHR 0xDA, CHR 0xDB, CHR 0xDC, CHR 0xDD, CHR 0xDE]"

definition lower_letters :: string where
  "lower_letters = ''abcdefghijklmnopqrstuvwxyz'' @
     [CHR 0xE0, CHR 0xE1, CHR 0xE2, CHR 0xE3, CHR 0xE4, CHR 0xE5, CHR 0xE6, CHR 0xE7,
      CHR 0xE8, CHR 0xE9, CHR 0xEA, CHR 0xEB, CHR 0xEC, CHR 0xED, CHR 0xEE, CHR 0xEF,
      CHR 0xF0, CHR 0xF1, CHR 0xF2, CHR 0xF3, CHR 0xF4, CHR 0xF5, CHR 0xF6,
      CHR 0xF8, CHR 0xF9, CHR 0xFA, CHR 0xFB, CHR 0xFC, CHR 0xFD, CHR 0xFE]"

definition lower_char :: "char \<Rightarrow> char" where
  "lower_char c = (case map_of (zip upper_letters lower_letters) c of Some l \<Rightarrow> l | None \<Rightarrow> c)"

definition py_lower :: "string \<Rightarrow> string" where
  "py_lower s = map lower_char s"

text \<open>
  \<open>s.replace(old, new)\<close>: every occurrence of \<open>old\<close>, found from the left and not
  overlapping, becomes \<open>new\<close>. With an empty \<open>old\<close>, \<open>new\<close> is put before every
  character and at the end.
\<close>

function py_replace :: "string \<Rightarrow> string \<Rightarrow> string \<Rightarrow> string" where
  "py_replace old new s =
     (if old = [] then new @ concat (map (\<lambda>c. c # new) s)
      else if s = [] then []
      else if prefix old s then new @ py_replace old new (drop (length old) s)
      else hd s # py_replace old new (tl s))"
  by pat_completeness auto
termination
  by (relation "measure (\<lambda>(old, new, s). length s)") (auto simp: neq_Nil_conv)

declare py_replace.simps [simp del]

text \<open>\<open>sub in s\<close> on strings.\<close>

fun py_contains :: "string \<Rightarrow> string \<Rightarrow> bool" where
  "py_contains sub [] = (sub = [])"
| "py_contains sub (c # cs) = (prefix sub (c # cs) \<or> py_contains sub cs)"

text \<open>\<open>str(v)\<close> of a value that is a string or \<open>None\<close>.\<close>

definition py_str :: "string option \<Rightarrow> string" where
  "py_str v = (case v of None \<Rightarrow> ''None'' | Some s \<Rightarrow> s)"

subsection \<open>The conversion \<open>float(s)\<close> of a string\<close>

text \<open>
  \<open>float(s)\<close> as CPython computes it; \<open>None\<close> stands for the \<open>ValueError\<close>.
  A code point from U+007F on must be white space (there is no decimal digit between
  U+007F and U+00FF) and counts as a blank. An underscore must stand between two digits and
  is dropped. The text is then stripped of ASCII white space and read as an optional sign
  followed by \<open>inf\<close>, \<open>infinity\<close> or \<open>nan\<close> in any case, or by a decimal number with
  an optional exponent. The value of a decimal number is exact.
\<close>

definition is_digit :: "char \<Rightarrow> bool" where
  "is_digit c = (c \<in> set ''0123456789'')"

definition digit_val :: "char \<Rightarrow> nat" where
  "digit_val c = of_char c - 48"

definition digits_val :: "string \<Rightarrow> nat" where
  "digits_val ds = foldl (\<lambda>n c. 10 * n + digit_val c) 0 ds"

definition to_ascii_spaces :: "string \<Rightarrow> string option" where
  "to_ascii_spaces s =
     (if list_all (\<lambda>c. (of_char c :: nat) < 127 \<or> is_space c) s
      then Some (map (\<lambda>c. if (of_char c :: nat) < 127 then c else CHR '' '') s)
      else None)"

fun underscores_ok :: "char \<Rightarrow> string \<Rightarrow> bool" where
  "underscores_ok prev [] = (prev \<noteq> CHR ''_'')"
| "underscores_ok prev (c # cs) =
     (if c = CHR ''_'' then is_digit prev \<and> underscores_ok c cs
      else (prev \<noteq> CHR ''_'' \<or> is_digit c) \<and> underscores_ok c cs)"

definition split_sign :: "string \<Rightarrow> bool \<times> string" where
  "split_sign s =
     (case s of
        [] \<Rightarrow> (False, [])
      | c # cs \<Rightarrow> if c = CHR ''-'' then (True, cs) else if c = CHR ''+'' then (False, cs)
                 else (False, s))"

definition upper_ascii :: "char \<Rightarrow> char" where
  "upper_ascii c =
     (case map_of (zip ''abcdefghijklmnopqrstuvwxyz'' ''ABCDEFGHIJKLMNOPQRSTUVWXYZ'') c of
        Some u \<Rightarrow> u | None \<Rightarrow> c)"

text \<open>The text \<open>s\<close> is the lower-case word \<open>w\<close> up to the case of its letters.\<close>

fun ci_match :: "string \<Rightarrow> string \<Rightarrow> bool" where
  "ci_match [] [] = True"
| "ci_match (w # ws) (c # cs) = ((c = w \<or> c = upper_ascii w) \<and> ci_match ws cs)"
| "ci_match ws cs = False"

definition parse_exponent :: "real \<Rightarrow> string \<Rightarrow> real option" where
  "parse_exponent m s =
     (let (neg, ds) = split_sign s
      in if ds \<noteq> [] \<and> list_all is_digit ds
         then Some (if neg then m / 10 ^ digits_val ds else m * 10 ^ digits_val ds)
         else None)"

text \<open>The digits after a decimal point, if there is one, and the rest of the text.\<close>

definition fraction_part :: "string \<Rightarrow> string \<times> string" where
  "fraction_part r =
     (case r of
        [] \<Rightarrow> ([], [])
      | c # t \<Rightarrow> if c = CHR ''.'' then (takeWhile is_digit t, dropWhile is_digit t)
                 else ([], r))"

text \<open>The end of the text, or an exponent that takes all of the rest.\<close>

definition exponent_part :: "real \<Rightarrow> string \<Rightarrow> real option" where
  "exponent_part m r =
     (case r of
        [] \<Rightarrow> Some m
      | c # t \<Rightarrow> if c = CHR ''e'' \<or> c = CHR ''E'' then parse_exponent m t else None)"

definition parse_decimal :: "string \<Rightarrow> real option" where
  "parse_decimal s =
     (let ip = takeWhile is_digit s;
          (fp, r2) = fraction_part (dropWhile is_digit s)
      in if ip = [] \<and> fp = [] then None
         else exponent_part (real (digits_val (ip @ fp)) / 10 ^ length fp) r2)"

definition py_float :: "string \<Rightarrow> pyfloat option" where
  "py_float s =
     (case to_ascii_spaces s of
        None \<Rightarrow> None
      | Some a \<Rightarrow>
          if \<not> underscores_ok (CHR 0x00) a then None
          else
            (let (neg, v) = split_sign (strip_with is_ascii_space
                                          (filter (\<lambda>c. c \<noteq> CHR ''_'') a))
             in if ci_match ''inf'' v \<or> ci_match ''infinity'' v
                  then Some (if neg then NInf else PInf)
                else if ci_match ''nan'' v then Some NaN
                else map_option (\<lambda>m. Fin (if neg then - m else m)) (parse_decimal v)))"

section \<open>The length parser\<close>

definition parse_length_to_meters :: "string \<Rightarrow> string \<Rightarrow> pyfloat option" where
  "parse_length_to_meters text unit =
     (if text = [] then None
      else
        (case py_float (py_replace '','' ''.'' (py_replace '' '' [] text)) of
           None \<Rightarrow> None
         | Some val \<Rightarrow>
             if unit = ''m'' then Some val
             else if unit = ''cm'' then Some (fdiv100 val)
             else None))"



text \<open>
  What the two \<open>replace\<close> calls of the length parser make of one character: a blank
  goes, a comma becomes a point, any other character stays.
\<close>

definition norm_char :: "char \<Rightarrow> string" where
  "norm_char c = (if c = CHR '' '' then [] else if c = CHR '','' then ''.'' else [c])"

section \<open>The catalog loader\<close>

subsection \<open>Exceptions\<close>

text \<open>
  The exceptions that the modelled code raises. \<open>ColumnNotFound logical headers\<close> is the
  \<open>KeyError\<close> that \<open>get\<close> raises: its message names the logical column and
  \<open>list(header_map.values())\<close>, and both are kept as data instead of the formatted
  text. \<open>KeyError k\<close> is a failed dictionary lookup, \<open>ValueError s\<close> the failure of
  \<open>float(s)\<close>, and \<open>AttributeError n\<close> the read of an attribute \<open>n\<close> that an object
  does not have.
\<close>

datatype py_error =
    ColumnNotFound string "string list"
  | KeyError string
  | ValueError string
  | AttributeError string

text \<open>Sequencing of two steps of which the first may raise.\<close>

definition and_then :: "py_error + 'a \<Rightarrow> ('a \<Rightarrow> py_error + 'b) \<Rightarrow> py_error + 'b" where
  "and_then r f = (case r of Inl e \<Rightarrow> Inl e | Inr x \<Rightarrow> f x)"

subsection \<open>Reading the file with \<open>csv.DictReader\<close>\<close>

text \<open>
  A catalog file is the list of its lines, without the line ends; line \<open>k\<close> of the file
  (counted from 1) is the element at index \<open>k - 1\<close>. \<open>csv.reader\<close> with the delimiter
  \<open>,\<close> turns a line into the list of its fields and an empty line into the empty list.
  Quoted fields are outside this model: the lines are taken to contain no double quote.
\<close>

type_synonym csv_file = "string list"

fun split_commas :: "string \<Rightarrow> string list" where
  "split_commas [] = [[]]"
| "split_commas (c # cs) =
     (if c = CHR '','' then [] # split_commas cs
      else (case split_commas cs of [] \<Rightarrow> [[c]] | f # fs \<Rightarrow> (c # f) # fs))"

definition csv_row :: "string \<Rightarrow> string list" where
  "csv_row line = (if line = [] then [] else split_commas line)"

text \<open>
  \<open>reader.fieldnames or []\<close>: the fields of the first line, which may be empty; the
  empty list for an empty file.
\<close>

definition header_names :: "csv_file \<Rightarrow> string list" where
  "header_names f = (case f of [] \<Rightarrow> [] | h # ls \<Rightarrow> csv_row h)"

text \<open>
  A row dictionary of \<open>DictReader\<close>, in insertion order; the value \<open>None\<close> is Python's
  \<open>None\<close>, which \<open>DictReader\<close> stores for a column that the line is too short for.
  A later column of the same name overwrites an earlier one. The entry under the key
  \<open>None\<close> that holds the surplus fields of a long line is left out: the program never
  reads it.
\<close>

type_synonym row_dict = "(string \<times> string option) list"

definition make_row :: "string list \<Rightarrow> string list \<Rightarrow> row_dict" where
  "make_row names cells =
     foldl (\<lambda>d k. AList.update k None d)
       (foldl (\<lambda>d (k, v). AList.update k (Some v) d) [] (zip names cells))
       (drop (length cells) names)"

text \<open>
  The rows that iterating the \<open>DictReader\<close> yields: one for every line after the first
  whose list of fields is not empty. \<open>DictReader\<close> skips the empty lines.
\<close>

definition dict_rows :: "csv_file \<Rightarrow> row_dict list" where
  "dict_rows f =
     (case f of
        [] \<Rightarrow> []
      | h # ls \<Rightarrow> map (make_row (csv_row h)) (filter (\<lambda>r. r \<noteq> []) (map csv_row ls)))"

subsection \<open>Resolving columns\<close>

text \<open>The inner function \<open>norm\<close>: \<open>s.strip().lower().replace(" ", "")\<close>.\<close>

definition norm :: "string \<Rightarrow> string" where
  "norm s = py_replace '' '' [] (py_lower (py_strip s))"

text \<open>
  \<open>header_map = {norm(h): h for h in reader.fieldnames or []}\<close>, in insertion order.
\<close>

definition header_map_of :: "string list \<Rightarrow> (string \<times> string) list" where
  "header_map_of names = foldl (\<lambda>m h. AList.update (norm h) h m) [] names"

text \<open>The logical column names; the first is written with the sharp s.\<close>

definition col_aussen :: string where
  "col_aussen = ''au'' @ [eszett] @ ''en''"

definition required_columns :: "string list" where
  "required_columns = [col_aussen, ''innen'', ''cetta_max'', ''cetta_pro_meter'']"

text \<open>
  The first loop of \<open>get\<close>: for each candidate in turn, the candidate itself and then the
  candidate with \<open>aussen\<close> for the native spelling are looked up in \<open>header_map\<close>. The
  result is the header name found.
\<close>

fun try_candidates :: "(string \<times> string) list \<Rightarrow> string list \<Rightarrow> string option" where
  "try_candidates hm [] = None"
| "try_candidates hm (candidate # rest) =
     (case map_of hm candidate of
        Some h \<Rightarrow> Some h
      | None \<Rightarrow>
          (case map_of hm (py_replace col_aussen ''aussen'' candidate) of
             Some h \<Rightarrow> Some h
           | None \<Rightarrow> try_candidates hm rest))"

text \<open>
  The second loop of \<open>get\<close>: the first entry of \<open>header_map\<close> whose key contains the
  logical name without underscores.
\<close>

definition find_substring :: "(string \<times> string) list \<Rightarrow> string \<Rightarrow> string option" where
  "find_substring hm logical =
     map_option snd (find (\<lambda>(k, v). py_contains (py_replace ''_'' [] logical) k) hm)"

text \<open>The header name that \<open>get\<close> reads for a logical column, if it finds one.\<close>

definition resolve_column :: "(string \<times> string) list \<Rightarrow> string \<Rightarrow> string option" where
  "resolve_column hm logical =
     (case try_candidates hm
             [logical, py_replace [eszett] ''ss'' logical, py_replace ''_'' [] logical] of
        Some h \<Rightarrow> Some h
      | None \<Rightarrow> find_substring hm logical)"

text \<open>\<open>row[h]\<close>.\<close>

definition row_lookup :: "row_dict \<Rightarrow> string \<Rightarrow> py_error + string option" where
  "row_lookup r h = (case map_of r h of None \<Rightarrow> Inl (KeyError h) | Some v \<Rightarrow> Inr v)"

text \<open>The inner function \<open>get(row, logical)\<close>.\<close>

definition get :: "(string \<times> string) list \<Rightarrow> row_dict \<Rightarrow> string \<Rightarrow> py_error + string option" where
  "get hm r logical =
     (case resolve_column hm logical of
        Some h \<Rightarrow> row_lookup r h
      | None \<Rightarrow> Inl (ColumnNotFound logical (map snd hm)))"

subsection \<open>Parsing the rows\<close>

text \<open>\<open>float(str(v).strip().replace(",", "."))\<close>.\<close>

definition to_float :: "string option \<Rightarrow> py_error + pyfloat" where
  "to_float v =
     (let s = py_replace '','' ''.'' (py_strip (py_str v))
      in case py_float s of None \<Rightarrow> Inl (ValueError s) | Some x \<Rightarrow> Inr x)"

text \<open>The body of the \<open>try\<close> statement, up to the record that is appended.\<close>

definition parse_row :: "(string \<times> string) list \<Rightarrow> row_dict \<Rightarrow> py_error + EntryRow" where
  "parse_row hm r =
     and_then (get hm r col_aussen) (\<lambda>v0.
     and_then (get hm r ''innen'') (\<lambda>v1.
     and_then (to_float v1) (\<lambda>innen.
     and_then (get hm r ''cetta_max'') (\<lambda>v2.
     and_then (to_float v2) (\<lambda>cetta_max.
     and_then (get hm r ''cetta_pro_meter'') (\<lambda>v3.
     and_then (to_float v3) (\<lambda>cetta_pm.
       Inr \<lparr>label = py_strip (py_str v0), innen = innen, cetta_max = cetta_max,
            cetta_pro_meter = cetta_pm\<rparr>)))))))"

text \<open>
  A line printed by the \<open>except\<close> branch: the path, the number \<open>i\<close>, the exception
  and the row dictionary.
\<close>

record warning =
  w_path :: string
  w_line :: nat
  w_error :: py_error
  w_row :: row_dict

text \<open>
  The loop \<open>for i, row in enumerate(reader, start=2)\<close>, with the list \<open>rows\<close> and the
  printed warnings as its state.
\<close>

fun load_loop ::
  "(string \<times> string) list \<Rightarrow> string \<Rightarrow> nat \<Rightarrow> row_dict list
     \<Rightarrow> EntryRow list \<times> warning list \<Rightarrow> EntryRow list \<times> warning list" where
  "load_loop hm path i [] (rows, warns) = (rows, warns)"
| "load_loop hm path i (r # rest) (rows, warns) =
     (case parse_row hm r of
        Inr e \<Rightarrow> load_loop hm path (Suc i) rest (rows @ [e], warns)
      | Inl err \<Rightarrow>
          load_loop hm path (Suc i) rest
            (rows, warns @ [\<lparr>w_path = path, w_line = i, w_error = err, w_row = r\<rparr>]))"

text \<open>
  The directory \<open>DB_DIR\<close> maps a file name to the file's lines; a name without a file
  maps to \<open>None\<close>, which is when \<open>os.path.isfile\<close> is false. \<open>load_type_rows\<close>
  returns the list \<open>rows\<close>, paired here with the warnings it printed.
\<close>

definition load_type_rows :: "(string \<rightharpoonup> csv_file) \<Rightarrow> string \<Rightarrow> EntryRow list \<times> warning list" where
  "load_type_rows db type_name =
     (let path = type_name @ ''.csv''
      in case db path of
           None \<Rightarrow> ([], [])
         | Some f \<Rightarrow> load_loop (header_map_of (header_names f)) path 2 (dict_rows f) ([], []))"

text \<open>
  The 1-based numbers of the lines of a file that yield a row: the lines after the first
  that are not empty.
\<close>

definition row_line_numbers :: "csv_file \<Rightarrow> nat list" where
  "row_line_numbers f = map fst (filter (\<lambda>(n, l). csv_row l \<noteq> []) (zip [2 ..< Suc (length f)] (tl f)))"

subsection \<open>The ordering key\<close>

text \<open>
  The attributes of an \<open>EntryRow\<close> object that hold data are the four fields of the
  dataclass. \<open>getattr\<close> reads one by name and raises \<open>AttributeError\<close> for any other
  name; \<open>key\<close> is the method \<open>EntryRow.key\<close>, which reads \<open>self.aussen\<close> and then
  \<open>self.innen\<close>.
\<close>

datatype py_value = VStr string | VFloat pyfloat

definition attributes :: "EntryRow \<Rightarrow> (string \<times> py_value) list" where
  "attributes r =
     [(''label'', VStr (label r)), (''innen'', VFloat (innen r)),
      (''cetta_max'', VFloat (cetta_max r)), (''cetta_pro_meter'', VFloat (cetta_pro_meter r))]"

definition getattr :: "EntryRow \<Rightarrow> string \<Rightarrow> py_error + py_value" where
  "getattr r name =
     (case map_of (attributes r) name of None \<Rightarrow> Inl (AttributeError name) | Some v \<Rightarrow> Inr v)"

definition key :: "EntryRow \<Rightarrow> py_error + py_value \<times> py_value" where
  "key r = and_then (getattr r ''aussen'') (\<lambda>a. and_then (getattr r ''innen'') (\<lambda>i. Inr (a, i)))"

subsection \<open>Example files\<close>

definition header_line :: string where
  "header_line = col_aussen @ '',innen,cetta_max,cetta_pro_meter''"

text \<open>A file with an empty line before a row whose \<open>cetta_max\<close> is not a number.\<close>

definition file_blank_line :: csv_file where
  "file_blank_line = [header_line, '''', ''10x1,8,abc,0.5'', ''22x1,20,3.0,1.0'']"

text \<open>A file whose header has no column for \<open>innen\<close>.\<close>

definition file_no_innen :: csv_file where
  "file_no_innen = [col_aussen @ '',cetta_max,cetta_pro_meter'', ''10x1,1.0,0.5'', ''22x1,3.0,1.0'']"

text \<open>A well-formed file with the two records of the example catalog.\<close>

definition file_example :: csv_file where
  "file_example = [header_line, ''10x1,8,1.0,0.5'', ''22x1,20,3.0,1.0'']"

text \<open>A file whose rows stand with the larger dimension first.\<close>

definition file_unsorted :: csv_file where
  "file_unsorted = [header_line, ''22x1,20,3.0,1.0'', ''10x1,8,1.0,0.5'']"

text \<open>The record that the loop appends for a row, if the body of the \<open>try\<close> does not raise.\<close>

definition row_record :: "(string \<times> string) list \<Rightarrow> row_dict \<Rightarrow> EntryRow option" where
  "row_record hm r = (case parse_row hm r of Inr e \<Rightarrow> Some e | Inl err \<Rightarrow> None)"

text \<open>The warning that the loop prints for a row with the number \<open>i\<close>, if the body raises.\<close>

definition row_warning :: "(string \<times> string) list \<Rightarrow> string \<Rightarrow> nat \<times> row_dict \<Rightarrow> warning option" where
  "row_warning hm path p =
     (case parse_row hm (snd p) of
        Inr e \<Rightarrow> None
      | Inl err \<Rightarrow> Some \<lparr>w_path = path, w_line = fst p, w_error = err, w_row = snd p\<rparr>)"

section \<open>Properties of the selection engine\<close>



lemma scan_rows_Some:
  "scan_rows rows L = Some (r, q) \<Longrightarrow>
   \<exists>i<length rows. rows ! i = r \<and> q = fmul L (cetta_pro_meter r) \<and> satisfies L r
      \<and> (\<forall>j<i. \<not> satisfies L (rows ! j))"
proof (induction rows)
  case Nil
  then show ?case by simp
next
  case (Cons x xs)
  show ?case
  proof (cases "satisfies L x")
    case True
    with Cons.prems have "r = x" "q = fmul L (cetta_pro_meter x)"
      by (auto simp: satisfies_def Let_def)
    with True show ?thesis by (intro exI [of _ 0]) simp
  next
    case False
    with Cons.prems have "scan_rows xs L = Some (r, q)"
      by (auto simp: satisfies_def Let_def)
    from Cons.IH [OF this] obtain i where i: "i < length xs" "xs ! i = r"
      "q = fmul L (cetta_pro_meter r)" "satisfies L r" "\<forall>j<i. \<not> satisfies L (xs ! j)"
      by blast
    have "\<forall>j<Suc i. \<not> satisfies L ((x # xs) ! j)"
      using False i(5) by (auto simp: less_Suc_eq_0_disj)
    with i show ?thesis by (intro exI [of _ "Suc i"]) simp
  qed
qed

lemma select_best_fit:
  "scan_rows rows L = Some (r, q) \<Longrightarrow> as_variant (select_best rows L) = Some (Fit r q)"
  by (cases rows) (simp_all add: select_best_def as_variant_def)

lemma select_best_nofit:
  "scan_rows (r0 # rest) L = None \<Longrightarrow>
   as_variant (select_best (r0 # rest) L) = Some (NoFit r0 (fmul L (cetta_pro_meter r0)))"
  by (simp add: select_best_def as_variant_def)

lemma select_best_empty: "as_variant (select_best [] L) = Some Empty"
  by (simp add: select_best_def as_variant_def)






text \<open>
  C2. \<open>select_best\<close> is a total function: for every list of records and every length it
  returns a dictionary that reads as exactly one of the variants \<open>Fit\<close>, \<open>NoFit\<close> and
  \<open>Empty\<close>, and the variant is \<open>Empty\<close> exactly for the empty catalog. No branch of
  \<open>select_best\<close> raises.
\<close>

theorem select_best_total:
  "(\<exists>!v. as_variant (select_best rows L) = Some v) \<and>
   (as_variant (select_best rows L) = Some Empty \<longleftrightarrow> rows = [])"
proof (cases rows)
  case Nil
  then show ?thesis by (simp add: select_best_empty)
next
  case (Cons r0 rest)
  show ?thesis
  proof (cases "scan_rows rows L")
    case None
    with Cons show ?thesis using select_best_nofit [of r0 rest L] by simp
  next
    case (Some p)
    obtain r q where "p = (r, q)" by (cases p)
    with Some Cons show ?thesis using select_best_fit [of rows L r q] by simp
  qed
qed

theorem select_best_total_witness:
  "(\<exists>!v. as_variant (select_best example_catalog (Fin 2)) = Some v) \<and>
   (as_variant (select_best example_catalog (Fin 2)) = Some Empty
      \<longleftrightarrow> example_catalog = []) \<and>
   as_variant (select_best [] (Fin 2)) = Some Empty"
  using select_best_total [of example_catalog "Fin 2"] select_best_total [of "[]" "Fin 2"]
  by simp



text \<open>
  C4. On the two-record example catalog, length 2 gives \<open>Fit\<close> with the record
  \<open>10x1\<close> and required capacity 1 (the record's maximum capacity 1 equals the
  requirement, and the test accepts equality), and length 10 gives \<open>NoFit\<close> with the
  reference record \<open>10x1\<close> and required capacity 5.
\<close>

theorem select_best_example:
  "as_variant (select_best example_catalog (Fin 2))
     = Some (Fit \<lparr>label = ''10x1'', innen = Fin 8, cetta_max = Fin 1,
                  cetta_pro_meter = Fin (1 / 2)\<rparr> (Fin 1)) \<and>
   status (select_best example_catalog (Fin 2)) = ''ok'' \<and>
   as_variant (select_best example_catalog (Fin 10))
     = Some (NoFit \<lparr>label = ''10x1'', innen = Fin 8, cetta_max = Fin 1,
                    cetta_pro_meter = Fin (1 / 2)\<rparr> (Fin 5)) \<and>
   status (select_best example_catalog (Fin 10)) = ''none''"
  by (simp add: select_best_def as_variant_def example_catalog_def tolerance_def Let_def)

section \<open>Properties of the length parser\<close>

lemma py_replace_char:
  "py_replace [a] new s = concat (map (\<lambda>c. if c = a then new else [c]) s)"
proof (induction s)
  case Nil
  show ?case by (subst py_replace.simps) simp
next
  case (Cons x xs)
  show ?case using Cons by (subst py_replace.simps) auto
qed

lemma normalise_text:
  "py_replace '','' ''.'' (py_replace '' '' [] s) = concat (map norm_char s)"
  by (induction s) (simp_all add: py_replace_char norm_char_def)








lemma py_float_Nil: "py_float [] = None"
  by (simp add: py_float_def to_ascii_spaces_def strip_with_def split_sign_def
      parse_decimal_def fraction_part_def Let_def)

lemma parse_length_space:
  "parse_length_to_meters (a @ '' '' @ b) unit = parse_length_to_meters (a @ b) unit"
proof -
  have n: "concat (map norm_char (a @ '' '' @ b)) = concat (map norm_char (a @ b))"
    by (simp add: norm_char_def)
  show ?thesis
  proof (cases "a @ b = []")
    case True
    then show ?thesis
      by (simp add: parse_length_to_meters_def normalise_text norm_char_def py_float_Nil)
  next
    case False
    then show ?thesis
      unfolding parse_length_to_meters_def normalise_text n by (simp add: py_float_Nil)
  qed
qed














lemma parse_length_filter:
  "parse_length_to_meters (filter (\<lambda>c. c \<noteq> CHR '' '') s) unit = parse_length_to_meters s unit"
proof -
  have n: "concat (map norm_char (filter (\<lambda>c. c \<noteq> CHR '' '') s)) = concat (map norm_char s)"
    by (induction s) (simp_all add: norm_char_def)
  have e: "filter (\<lambda>c. c \<noteq> CHR '' '') s = [] \<Longrightarrow> concat (map norm_char s) = []"
    by (induction s) (auto simp: norm_char_def split: if_splits)
  show ?thesis
  proof (cases "filter (\<lambda>c. c \<noteq> CHR '' '') s = []")
    case True
    with e have c: "concat (map norm_char s) = []" by blast
    show ?thesis
      unfolding parse_length_to_meters_def normalise_text c True
      by (simp add: py_float_Nil)
  next
    case False
    then have "s \<noteq> []" by auto
    with False show ?thesis
      unfolding parse_length_to_meters_def normalise_text n by simp
  qed
qed

lemmas float_eval = parse_length_to_meters_def normalise_text norm_char_def py_float_def
  to_ascii_spaces_def is_space_def is_digit_def strip_with_def is_ascii_space_def
  split_sign_def parse_decimal_def fraction_part_def exponent_part_def parse_exponent_def
  upper_ascii_def digits_val_def digit_val_def Let_def

lemma parse_length_examples:
  "parse_length_to_meters ''80,034'' ''cm'' = Some (Fin 0.80034)"
  "parse_length_to_meters ''1.5'' ''m'' = Some (Fin 1.5)"
  "parse_length_to_meters ''abc'' ''m'' = None"
  "parse_length_to_meters ''-1'' ''m'' = Some (Fin (- 1))"
  "parse_length_to_meters ''1 234,5'' ''m'' = Some (Fin 1234.5)"
  by (simp_all add: float_eval)



text \<open>
  C10. The length parser removes every blank of the text, also the ones inside it, before
  the number is read: a blank put anywhere into a text does not change the result, and
  neither does removing all blanks. The text \<open>1 234,5\<close> with the unit \<open>m\<close> parses to
  1234.5.
\<close>

theorem parse_length_ignores_blanks:
  "parse_length_to_meters (a @ '' '' @ b) unit = parse_length_to_meters (a @ b) unit \<and>
   parse_length_to_meters (filter (\<lambda>c. c \<noteq> CHR '' '') s) unit
     = parse_length_to_meters s unit \<and>
   parse_length_to_meters ''1 234,5'' ''m'' = Some (Fin 1234.5)"
  by (simp only: parse_length_space parse_length_filter parse_length_examples simp_thms)

section \<open>Properties of the catalog loader\<close>

lemma load_loop_rows:
  "fst (load_loop hm path i rs (rows, warns)) = rows @ List.map_filter (row_record hm) rs"
proof (induction rs arbitrary: i rows warns)
  case Nil
  show ?case by simp
next
  case (Cons r rs)
  show ?case
    by (cases "parse_row hm r") (simp_all add: Cons row_record_def)
qed

lemma load_loop_warnings:
  "snd (load_loop hm path i rs (rows, warns))
     = warns @ List.map_filter (row_warning hm path) (zip [i ..< i + length rs] rs)"
proof (induction rs arbitrary: i rows warns)
  case Nil
  show ?case by simp
next
  case (Cons r rs)
  have z: "zip [i ..< i + length (r # rs)] (r # rs) = (i, r) # zip [Suc i ..< Suc i + length rs] rs"
    by (subst upt_rec) (simp del: upt_Suc)
  show ?case
    unfolding z
    by (cases "parse_row hm r") (simp_all add: Cons row_warning_def)
qed

lemma load_type_rows_some:
  "db (type_name @ ''.csv'') = Some f \<Longrightarrow>
   load_type_rows db type_name =
     (List.map_filter (row_record (header_map_of (header_names f))) (dict_rows f),
      List.map_filter (row_warning (header_map_of (header_names f)) (type_name @ ''.csv''))
        (zip [2 ..< 2 + length (dict_rows f)] (dict_rows f)))"
  using load_loop_rows [of "header_map_of (header_names f)" "type_name @ ''.csv''" 2 "dict_rows f" "[]" "[]"]
    load_loop_warnings [of "header_map_of (header_names f)" "type_name @ ''.csv''" 2 "dict_rows f" "[]" "[]"]
  by (simp add: load_type_rows_def prod_eq_iff)

lemma get_unresolved:
  "resolve_column hm logical = None \<Longrightarrow> get hm r logical = Inl (ColumnNotFound logical (map snd hm))"
  by (simp add: get_def)

lemma parse_row_unresolved:
  assumes "logical \<in> set required_columns" "resolve_column hm logical = None"
  shows "\<exists>err. parse_row hm r = Inl err"
proof -
  from assms(2) have g: "get hm r logical = Inl (ColumnNotFound logical (map snd hm))"
    by (rule get_unresolved)
  from assms(1) have "logical = col_aussen \<or> logical = ''innen'' \<or> logical = ''cetta_max''
      \<or> logical = ''cetta_pro_meter''"
    by (simp add: required_columns_def)
  with g show ?thesis
    by (auto simp: parse_row_def and_then_def split: sum.splits)
qed

lemma all_rows_skipped:
  assumes "\<forall>r \<in> set rs. \<exists>err. parse_row hm r = Inl err"
  shows "List.map_filter (row_record hm) rs = []"
    and "map w_line (List.map_filter (row_warning hm path) (zip [i ..< i + length rs] rs))
           = [i ..< i + length rs]"
    and "map w_row (List.map_filter (row_warning hm path) (zip [i ..< i + length rs] rs)) = rs"
proof -
  from assms show "List.map_filter (row_record hm) rs = []"
    by (induction rs) (auto simp: row_record_def)
  have w: "List.map_filter (row_warning hm path) ps
      = map (\<lambda>p. \<lparr>w_path = path, w_line = fst p,
                    w_error = projl (parse_row hm (snd p)), w_row = snd p\<rparr>) ps"
    if "\<forall>p \<in> set ps. \<exists>err. parse_row hm (snd p) = Inl err" for ps
    using that by (induction ps) (auto simp: row_warning_def)
  have s: "\<forall>p \<in> set (zip [i ..< i + length rs] rs). \<exists>err. parse_row hm (snd p) = Inl err"
    using assms by (auto dest: set_zip_rightD)
  show "map w_line (List.map_filter (row_warning hm path) (zip [i ..< i + length rs] rs))
           = [i ..< i + length rs]"
    unfolding w [OF s] by (simp add: comp_def map_fst_zip del: upt_Suc)
  show "map w_row (List.map_filter (row_warning hm path) (zip [i ..< i + length rs] rs)) = rs"
    unfolding w [OF s] by (simp add: comp_def map_snd_zip)
qed

lemma key_fails: "key r = Inl (AttributeError ''aussen'')"
  by (simp add: key_def and_then_def getattr_def attributes_def)

lemma map_filter_append: "List.map_filter g (xs @ ys) = List.map_filter g xs @ List.map_filter g ys"
  by (simp add: List.map_filter_def)

lemma map_filter_all_some:
  "\<forall>x \<in> set xs. g x \<noteq> None \<Longrightarrow> List.map_filter g xs = map (the \<circ> g) xs"
  by (induction xs) auto

lemma map_filter_all_none:
  "\<forall>x \<in> set xs. g x = None \<Longrightarrow> List.map_filter g xs = []"
  by (induction xs) auto

lemma row_warning_none: "row_warning hm path p = None \<longleftrightarrow> row_record hm (snd p) \<noteq> None"
  by (simp add: row_warning_def row_record_def split: sum.splits)

lemma zip_upt_append:
  "zip [i ..< i + length (xs @ ys)] (xs @ ys)
     = zip [i ..< i + length xs] xs @ zip [i + length xs ..< i + length xs + length ys] ys"
proof -
  have "[i ..< i + length (xs @ ys)] = [i ..< i + length xs] @ [i + length xs ..< i + length xs + length ys]"
    using upt_add_eq_append [of i "i + length xs" "length ys"] by (simp add: add.assoc)
  then show ?thesis by (simp del: upt_Suc)
qed

lemma zip_upt_Cons:
  "zip [i ..< i + length (x # xs)] (x # xs) = (i, x) # zip [Suc i ..< Suc i + length xs] xs"
  by (subst upt_rec) (simp del: upt_Suc)

text \<open>
  When exactly one of the rows that the reader yields fails to parse, the loader returns the
  records of all other rows in their order and prints one warning. The warning carries that
  row and the number 2 plus the count of the rows yielded before it, which is the row's line
  in the file only when no empty line stands before it.
\<close>

lemma load_single_malformed_row:
  assumes "db (type_name @ ''.csv'') = Some f"
    and "dict_rows f = pre @ [bad] @ post"
    and "\<forall>r \<in> set (pre @ post). row_record (header_map_of (header_names f)) r \<noteq> None"
    and "row_record (header_map_of (header_names f)) bad = None"
  shows "fst (load_type_rows db type_name)
           = map (the \<circ> row_record (header_map_of (header_names f))) (pre @ post)"
    and "map w_line (snd (load_type_rows db type_name)) = [2 + length pre]"
    and "map w_row (snd (load_type_rows db type_name)) = [bad]"
proof -
  let ?hm = "header_map_of (header_names f)"
  let ?w = "row_warning ?hm (type_name @ ''.csv'')"
  note l = load_type_rows_some [of db type_name f, OF assms(1)]
  from assms(3) have p: "\<forall>r \<in> set pre. row_record ?hm r \<noteq> None"
    and q: "\<forall>r \<in> set post. row_record ?hm r \<noteq> None" by auto
  show "fst (load_type_rows db type_name) = map (the \<circ> row_record ?hm) (pre @ post)"
    unfolding l fst_conv assms(2)
    by (simp add: map_filter_append map_filter_all_some [OF p] map_filter_all_some [OF q] assms(4))
  have z: "zip [2 ..< 2 + length (dict_rows f)] (dict_rows f)
      = zip [2 ..< 2 + length pre] pre @ (2 + length pre, bad)
        # zip [Suc (2 + length pre) ..< Suc (2 + length pre) + length post] post"
    unfolding assms(2) append_Cons append_Nil
    by (simp only: zip_upt_append [of 2 pre "bad # post"] zip_upt_Cons [of "2 + length pre" bad post])
  have a: "List.map_filter ?w (zip [i ..< i + length rs] rs) = []"
    if "\<forall>r \<in> set rs. row_record ?hm r \<noteq> None" for i rs
    using that by (intro map_filter_all_none) (auto simp: row_warning_none dest: set_zip_rightD)
  have b: "?w (2 + length pre, bad)
      = Some \<lparr>w_path = type_name @ ''.csv'', w_line = 2 + length pre,
               w_error = projl (parse_row ?hm bad), w_row = bad\<rparr>"
    using assms(4) by (simp add: row_warning_def row_record_def split: sum.splits)
  have s: "snd (load_type_rows db type_name)
      = [\<lparr>w_path = type_name @ ''.csv'', w_line = 2 + length pre,
           w_error = projl (parse_row ?hm bad), w_row = bad\<rparr>]"
    unfolding l snd_conv z map_filter_append
    using a [OF p, of 2] a [OF q, of "Suc (2 + length pre)"] b by simp
  show "map w_line (snd (load_type_rows db type_name)) = [2 + length pre]"
    unfolding s by simp
  show "map w_row (snd (load_type_rows db type_name)) = [bad]"
    unfolding s by simp
qed

lemma select_unsorted:
  "map_option label (row (select_best (fst (load_type_rows [''t.csv'' \<mapsto> file_unsorted] ''t'')) (Fin 2)))
     = Some ''22x1''"
  by code_simp

lemma select_sorted:
  "map_option label (row (select_best (fst (load_type_rows [''t.csv'' \<mapsto> file_example] ''t'')) (Fin 2)))
     = Some ''10x1''"
  by code_simp

lemma load_example: "load_type_rows [''t.csv'' \<mapsto> file_example] ''t'' = (example_catalog, [])"
  by code_simp

lemma load_unsorted:
  "map label (fst (load_type_rows [''t.csv'' \<mapsto> file_unsorted] ''t'')) = [''22x1'', ''10x1'']"
  by code_simp

lemma file_no_innen_rows: "length (dict_rows file_no_innen) = 2"
  by code_simp

lemma file_no_innen_unresolved:
  "resolve_column (header_map_of (header_names file_no_innen)) ''innen'' = None"
  by code_simp

text \<open>
  C6, as the code behaves. The file \<open>file_no_innen\<close> has no column that resolves for
  \<open>innen\<close>. \<open>load_type_rows\<close> does not fail on it: it returns the empty list and has
  skipped each of the two data rows on its own, printing one warning per row with the
  \<open>KeyError\<close> of \<open>get\<close>.
\<close>

theorem load_unresolved_column_counterexample:
  "resolve_column (header_map_of (header_names file_no_innen)) ''innen'' = None \<and>
   load_type_rows [''t.csv'' \<mapsto> file_no_innen] ''t'' =
     ([],
      [\<lparr>w_path = ''t.csv'', w_line = 2,
        w_error = ColumnNotFound ''innen'' [col_aussen, ''cetta_max'', ''cetta_pro_meter''],
        w_row = [(col_aussen, Some ''10x1''), (''cetta_max'', Some ''1.0''),
                 (''cetta_pro_meter'', Some ''0.5'')]\<rparr>,
       \<lparr>w_path = ''t.csv'', w_line = 3,
        w_error = ColumnNotFound ''innen'' [col_aussen, ''cetta_max'', ''cetta_pro_meter''],
        w_row = [(col_aussen, Some ''22x1''), (''cetta_max'', Some ''3.0''),
                 (''cetta_pro_meter'', Some ''1.0'')]\<rparr>])"
  by code_simp

text \<open>
  C6, amended. If one of the four required logical columns does not resolve against the
  header, then \<open>get\<close> raises, for every row, the \<open>KeyError\<close> that names the logical
  column and the header names present; \<open>load_type_rows\<close> catches the exception of each
  row: it returns no record, and it prints exactly one warning for every data row, numbered
  from 2 in the order of the rows and carrying the row.
\<close>

theorem load_unresolved_column:
  assumes "db (type_name @ ''.csv'') = Some f"
    and "logical \<in> set required_columns"
    and "resolve_column (header_map_of (header_names f)) logical = None"
  shows "get (header_map_of (header_names f)) r logical
           = Inl (ColumnNotFound logical (map snd (header_map_of (header_names f)))) \<and>
         fst (load_type_rows db type_name) = [] \<and>
         map w_line (snd (load_type_rows db type_name)) = [2 ..< 2 + length (dict_rows f)] \<and>
         map w_row (snd (load_type_rows db type_name)) = dict_rows f"
proof -
  let ?hm = "header_map_of (header_names f)"
  have a: "\<forall>r \<in> set (dict_rows f). \<exists>err. parse_row ?hm r = Inl err"
    using parse_row_unresolved [OF assms(2,3)] by blast
  show ?thesis
    unfolding load_type_rows_some [of db type_name f, OF assms(1)] fst_conv snd_conv
    using get_unresolved [OF assms(3)] all_rows_skipped [OF a] by blast
qed

theorem load_unresolved_column_witness:
  "[''t.csv'' \<mapsto> file_no_innen] (''t'' @ ''.csv'') = Some file_no_innen \<and>
   ''innen'' \<in> set required_columns \<and>
   resolve_column (header_map_of (header_names file_no_innen)) ''innen'' = None \<and>
   fst (load_type_rows [''t.csv'' \<mapsto> file_no_innen] ''t'') = [] \<and>
   map w_line (snd (load_type_rows [''t.csv'' \<mapsto> file_no_innen] ''t'')) = [2, 3]"
proof -
  have h1: "[''t.csv'' \<mapsto> file_no_innen] (''t'' @ ''.csv'') = Some file_no_innen" by simp
  have h2: "''innen'' \<in> set required_columns" by (simp add: required_columns_def)
  have u: "[2 ..< 2 + length (dict_rows file_no_innen)] = [2, 3]"
    unfolding file_no_innen_rows by code_simp
  from load_unresolved_column
    [of "[''t.csv'' \<mapsto> file_no_innen]" "''t''" file_no_innen "''innen''" "[]",
      OF h1 h2 file_no_innen_unresolved] h1 h2
    file_no_innen_unresolved
  show ?thesis unfolding u by blast
qed

text \<open>
  C7, at a file with an empty line. In \<open>file_blank_line\<close> the row with the non-numeric
  \<open>cetta_max\<close> is the third line of the file, and the rows stand on the lines 3 and 4.
  \<open>load_type_rows\<close> skips that row and keeps the other one, but the warning carries the
  number 2: the loop counts the rows that the reader yields, and the reader has skipped
  the empty line.
\<close>

theorem load_blank_line_number:
  "file_blank_line ! 2 = ''10x1,8,abc,0.5'' \<and>
   row_line_numbers file_blank_line = [3, 4] \<and>
   load_type_rows [''t.csv'' \<mapsto> file_blank_line] ''t'' =
     ([\<lparr>label = ''22x1'', innen = Fin 20, cetta_max = Fin 3, cetta_pro_meter = Fin 1\<rparr>],
      [\<lparr>w_path = ''t.csv'', w_line = 2, w_error = ValueError ''abc'',
        w_row = [(col_aussen, Some ''10x1''), (''innen'', Some ''8''),
                 (''cetta_max'', Some ''abc''), (''cetta_pro_meter'', Some ''0.5'')]\<rparr>])"
  by code_simp

text \<open>
  C8. For a catalog name without a file, \<open>load_type_rows\<close> returns the empty list and
  prints nothing; it does not raise. The result is the same as for an empty file of that
  name and for a file that has only a header line, and \<open>select_best\<close> reads each of them
  as \<open>Empty\<close>.
\<close>

theorem load_missing_catalog:
  assumes "db (type_name @ ''.csv'') = None"
  shows "load_type_rows db type_name = ([], []) \<and>
         load_type_rows (db(type_name @ ''.csv'' \<mapsto> [])) type_name
           = load_type_rows db type_name \<and>
         load_type_rows (db(type_name @ ''.csv'' \<mapsto> [h])) type_name
           = load_type_rows db type_name \<and>
         as_variant (select_best (fst (load_type_rows db type_name)) L) = Some Empty"
  using assms
  by (simp add: load_type_rows_def dict_rows_def header_names_def select_best_empty)

theorem load_missing_catalog_witness:
  "Map.empty (''t'' @ ''.csv'') = (None :: csv_file option) \<and>
   load_type_rows Map.empty ''t'' = ([], []) \<and>
   load_type_rows [''t'' @ ''.csv'' \<mapsto> [header_line]] ''t'' = load_type_rows Map.empty ''t''"
proof -
  have h: "Map.empty (''t'' @ ''.csv'') = (None :: csv_file option)" by simp
  from load_missing_catalog [of Map.empty "''t''" header_line, OF h] h
  show ?thesis by blast
qed

text \<open>
  C9. For every record, \<open>key\<close> fails: it reads the attribute \<open>aussen\<close>, which is none
  of the fields \<open>label\<close>, \<open>innen\<close>, \<open>cetta_max\<close> and \<open>cetta_pro_meter\<close>. Nothing
  sorts the catalog: the list that \<open>load_type_rows\<close> returns for a file holds the records
  of the data rows that parse, in the order of the rows in the file, and that list is what
  \<open>select_best\<close> scans from its first element on.
\<close>

theorem key_fails_order_kept:
  "key r = Inl (AttributeError ''aussen'') \<and>
   (db (type_name @ ''.csv'') = Some f \<longrightarrow>
    fst (load_type_rows db type_name)
      = List.map_filter (row_record (header_map_of (header_names f))) (dict_rows f))"
  using load_type_rows_some [of db type_name f] by (simp add: key_fails)

theorem key_fails_order_kept_witness:
  "key (hd example_catalog) = Inl (AttributeError ''aussen'') \<and>
   [''t.csv'' \<mapsto> file_unsorted] (''t'' @ ''.csv'') = Some file_unsorted \<and>
   fst (load_type_rows [''t.csv'' \<mapsto> file_unsorted] ''t'')
     = List.map_filter (row_record (header_map_of (header_names file_unsorted)))
         (dict_rows file_unsorted) \<and>
   map label (fst (load_type_rows [''t.csv'' \<mapsto> file_unsorted] ''t''))
     = [''22x1'', ''10x1''] \<and>
   map_option label
     (row (select_best (fst (load_type_rows [''t.csv'' \<mapsto> file_unsorted] ''t'')) (Fin 2)))
     = Some ''22x1''"
proof -
  have h: "[''t.csv'' \<mapsto> file_unsorted] (''t'' @ ''.csv'') = Some file_unsorted" by simp
  from key_fails_order_kept
    [of "hd example_catalog" "[''t.csv'' \<mapsto> file_unsorted]" "''t''" file_unsorted] h
    load_unsorted select_unsorted
  show ?thesis by blast
qed

end
